theory Spec2Isabelle
  imports Complex_Main "HOL-Library.Word"
begin

section \<open>The UART driver of the FOXSI/PADRE GUI (uart\_driver.py)\<close>

text \<open>
  The class \<^verbatim>\<open>UART_Driver\<close> wraps a pyserial connection. The body of every method
  that uses the connection is a \<^verbatim>\<open>try\<close> block with a bare \<^verbatim>\<open>except\<close>. The
  embedding keeps both: a method is a
  computation over the state of the Python process that yields either an exception
  (\<open>Inl\<close>) or a value (\<open>Inr\<close>), and \<^verbatim>\<open>try/except\<close> is a combinator on such
  computations. The pyserial library is not part of the repository; it is a parameter
  of every method (a record of functions over an arbitrary world), so that a theorem
  about a method holds for every behaviour of the library, every error included.
\<close>

subsection \<open>Data\<close>

type_synonym byte = "8 word"

text \<open>Python exceptions that the driver or the library can raise.\<close>

datatype exn =
    AttributeError
  | SerialException
  | PortNotOpenError
  | ValueError
  | TypeError
  | OSError

text \<open>The pyserial constants the driver passes to \<^verbatim>\<open>serial.Serial\<close>.\<close>

datatype parity = PARITY_NONE | PARITY_EVEN | PARITY_ODD | PARITY_MARK | PARITY_SPACE

datatype stopbits = STOPBITS_ONE | STOPBITS_ONE_POINT_FIVE | STOPBITS_TWO

datatype bytesize = FIVEBITS | SIXBITS | SEVENBITS | EIGHTBITS

fun data_bits :: "bytesize \<Rightarrow> nat" where
  "data_bits FIVEBITS = 5"
| "data_bits SIXBITS = 6"
| "data_bits SEVENBITS = 7"
| "data_bits EIGHTBITS = 8"

text \<open>The keyword arguments of \<^verbatim>\<open>serial.Serial(...)\<close> that \<^verbatim>\<open>open_conn\<close> gives.\<close>

record serial_args =
  port :: string
  baudrate :: int
  parity :: parity
  stopbits :: stopbits
  bytesize :: bytesize
  timeout :: real

text \<open>
  A call of the library, as the library sees it: the function and its arguments.
  \<open>'h\<close> is the type of a \<^verbatim>\<open>Serial\<close> object (a reference).
\<close>

datatype 'h call =
    Comports
  | SerialCall serial_args
  | CloseCall 'h
  | FlushOutputCall 'h
  | FlushInputCall 'h
  | WriteCall 'h "byte list"
  | ReadCall 'h int
  | InWaitingCall 'h

text \<open>
  The library: each function takes the world \<open>'w\<close> (the operating system, the
  devices, the \<^verbatim>\<open>Serial\<close> objects) and returns an exception or a result, and the
  world after the call. \<open>lib_comports\<close> gives the \<^verbatim>\<open>device\<close> attribute of each
  entry of \<^verbatim>\<open>serial.tools.list_ports.comports()\<close>.
\<close>

record ('h, 'w) serial_lib =
  lib_comports :: "'w \<Rightarrow> (exn + string list) \<times> 'w"
  lib_Serial :: "serial_args \<Rightarrow> 'w \<Rightarrow> (exn + 'h) \<times> 'w"
  lib_close :: "'h \<Rightarrow> 'w \<Rightarrow> (exn + unit) \<times> 'w"
  lib_flushOutput :: "'h \<Rightarrow> 'w \<Rightarrow> (exn + unit) \<times> 'w"
  lib_flushInput :: "'h \<Rightarrow> 'w \<Rightarrow> (exn + unit) \<times> 'w"
  lib_write :: "'h \<Rightarrow> byte list \<Rightarrow> 'w \<Rightarrow> (exn + nat) \<times> 'w"
  lib_read :: "'h \<Rightarrow> int \<Rightarrow> 'w \<Rightarrow> (exn + byte list) \<times> 'w"
  lib_inWaiting :: "'h \<Rightarrow> 'w \<Rightarrow> (exn + nat) \<times> 'w"

text \<open>
  The state of the process: the two attributes of the \<^verbatim>\<open>UART_Driver\<close> object
  (\<open>conn = None\<close> when the attribute \<^verbatim>\<open>self.conn\<close> was never assigned, so that
  reading it raises \<^verbatim>\<open>AttributeError\<close>), the world of the library, the library
  calls made so far, and the lines printed so far.
\<close>

record ('h, 'w) state =
  comm_ports_list :: "string list"
  conn :: "'h option"
  world :: 'w
  calls :: "'h call list"
  stdout :: "string list"

subsection \<open>Computations that may raise\<close>

type_synonym ('a, 'h, 'w) py = "('h, 'w) state \<Rightarrow> (exn + 'a) \<times> ('h, 'w) state"

definition py_return :: "'a \<Rightarrow> ('a, 'h, 'w) py" where
  "py_return x s = (Inr x, s)"

definition py_bind :: "('a, 'h, 'w) py \<Rightarrow> ('a \<Rightarrow> ('b, 'h, 'w) py) \<Rightarrow> ('b, 'h, 'w) py" where
  "py_bind m f s = (case m s of (Inl e, s') \<Rightarrow> (Inl e, s') | (Inr x, s') \<Rightarrow> f x s')"

text \<open>
  \<^verbatim>\<open>try: body except: handler\<close> with a bare \<^verbatim>\<open>except\<close>: every exception of the body
  is caught, the handler runs in the state the body left, and an exception of the
  handler itself propagates.
\<close>

definition try_except :: "('a, 'h, 'w) py \<Rightarrow> ('a, 'h, 'w) py \<Rightarrow> ('a, 'h, 'w) py" where
  "try_except body handler s =
     (case body s of (Inl e, s') \<Rightarrow> handler s' | (Inr x, s') \<Rightarrow> (Inr x, s'))"

text \<open>Reading \<^verbatim>\<open>self.conn\<close>, assigning it, and \<^verbatim>\<open>print\<close>.\<close>

definition get_conn :: "('h, 'h, 'w) py" where
  "get_conn s = (case conn s of None \<Rightarrow> (Inl AttributeError, s) | Some h \<Rightarrow> (Inr h, s))"

definition set_conn :: "'h \<Rightarrow> (unit, 'h, 'w) py" where
  "set_conn h s = (Inr (), s\<lparr>conn := Some h\<rparr>)"

definition print_line :: "string \<Rightarrow> (unit, 'h, 'w) py" where
  "print_line msg s = (Inr (), s\<lparr>stdout := stdout s @ [msg]\<rparr>)"

text \<open>A library call: it is recorded, and the world is the one the library returns.\<close>

definition invoke :: "'h call \<Rightarrow> ('w \<Rightarrow> (exn + 'a) \<times> 'w) \<Rightarrow> ('a, 'h, 'w) py" where
  "invoke c f s =
     (case f (world s) of (r, w') \<Rightarrow> (r, s\<lparr>world := w', calls := calls s @ [c]\<rparr>))"

subsection \<open>The methods of \<^verbatim>\<open>UART_Driver\<close>\<close>

text \<open>
  \<^verbatim>\<open>__init__\<close>: \<^verbatim>\<open>ports = sp.comports()\<close>, \<^verbatim>\<open>self.comm_ports_list = []\<close>, and the loop
  that appends \<^verbatim>\<open>p.device\<close> for each port. There is no \<^verbatim>\<open>try\<close> here.
\<close>

fun append_devices :: "string list \<Rightarrow> string list \<Rightarrow> string list" where
  "append_devices [] acc = acc"
| "append_devices (p # ps) acc = append_devices ps (acc @ [p])"

definition init :: "('h, 'w) serial_lib \<Rightarrow> (unit, 'h, 'w) py" where
  "init lib =
     py_bind (invoke Comports (lib_comports lib)) (\<lambda>ports s.
       (Inr (), s\<lparr>comm_ports_list := append_devices ports []\<rparr>))"

definition getAvailablePorts :: "(string list, 'h, 'w) py" where
  "getAvailablePorts s = (Inr (comm_ports_list s), s)"

definition open_args :: "string \<Rightarrow> serial_args" where
  "open_args p =
     \<lparr>port = p, baudrate = 115200, parity = PARITY_NONE, stopbits = STOPBITS_ONE,
      bytesize = EIGHTBITS, timeout = 0.2\<rparr>"

definition open_conn :: "('h, 'w) serial_lib \<Rightarrow> string \<Rightarrow> (bool, 'h, 'w) py" where
  "open_conn lib p =
     try_except
       (py_bind (invoke (SerialCall (open_args p)) (lib_Serial lib (open_args p))) (\<lambda>h.
        py_bind (set_conn h) (\<lambda>_.
        py_return True)))
       (py_bind (print_line (''UART ERROR: Serial port '' @ [CHR 0x27] @ p @ [CHR 0x27] @ '' not open'')) (\<lambda>_.
        py_return False))"

definition close_conn :: "('h, 'w) serial_lib \<Rightarrow> (unit, 'h, 'w) py" where
  "close_conn lib =
     try_except
       (py_bind get_conn (\<lambda>h. invoke (CloseCall h) (lib_close lib h)))
       (print_line ''UART ERROR: Serial connection close failed'')"

definition clear_tx_buffer :: "('h, 'w) serial_lib \<Rightarrow> (unit, 'h, 'w) py" where
  "clear_tx_buffer lib =
     try_except
       (py_bind get_conn (\<lambda>h. invoke (FlushOutputCall h) (lib_flushOutput lib h)))
       (print_line ''UART ERROR: Clear TX serial buffer failed'')"

definition clear_rx_buffer :: "('h, 'w) serial_lib \<Rightarrow> (unit, 'h, 'w) py" where
  "clear_rx_buffer lib =
     try_except
       (py_bind get_conn (\<lambda>h. invoke (FlushInputCall h) (lib_flushInput lib h)))
       (print_line ''UART ERROR: Clear RX serial buffer failed'')"

definition send_bytes :: "('h, 'w) serial_lib \<Rightarrow> byte list \<Rightarrow> (bool, 'h, 'w) py" where
  "send_bytes lib tx_buffer =
     try_except
       (py_bind (clear_tx_buffer lib) (\<lambda>_.
        py_bind get_conn (\<lambda>h.
        py_bind (invoke (WriteCall h tx_buffer) (lib_write lib h tx_buffer)) (\<lambda>_.
        py_bind (clear_tx_buffer lib) (\<lambda>_.
        py_return True)))))
       (py_return False)"

text \<open>
  \<^verbatim>\<open>read_bytes\<close>: the locals \<^verbatim>\<open>rx_stat = False\<close> and \<^verbatim>\<open>rx_buf = []\<close> are set before
  the \<^verbatim>\<open>try\<close>. Only \<^verbatim>\<open>self.conn\<close> and \<^verbatim>\<open>read\<close> can raise, both before the first
  assignment inside the \<^verbatim>\<open>try\<close>, so the handler returns the initial \<^verbatim>\<open>rx_buf\<close>.
  \<^verbatim>\<open>[b for b in rx_buf]\<close> turns the bytes into a list of integers.
\<close>

definition read_bytes :: "('h, 'w) serial_lib \<Rightarrow> int \<Rightarrow> (bool \<times> int list, 'h, 'w) py" where
  "read_bytes lib rx_len =
     try_except
       (py_bind get_conn (\<lambda>h.
        py_bind (invoke (ReadCall h rx_len) (lib_read lib h rx_len)) (\<lambda>rx_buf.
        py_return (True, map uint rx_buf))))
       (py_return (False, []))"

definition get_unread_bytes :: "('h, 'w) serial_lib \<Rightarrow> (int, 'h, 'w) py" where
  "get_unread_bytes lib =
     try_except
       (py_bind get_conn (\<lambda>h.
        py_bind (invoke (InWaitingCall h) (lib_inWaiting lib h)) (\<lambda>n.
        py_return (int n))))
       (py_bind (print_line ''UART ERROR: Failed to get serial bytes in waiting'') (\<lambda>_.
        py_return (- 1)))"


subsection \<open>Callers: any sequence of method calls\<close>

text \<open>
  What a caller can do with a constructed driver between two points in time: call the
  methods with any arguments, in any order, while the world outside (the devices the
  operating system shows, the bytes on the line) changes in any way.
\<close>

datatype ('h, 'w) action =
    Call_getAvailablePorts
  | Call_open_conn string
  | Call_close_conn
  | Call_clear_tx_buffer
  | Call_clear_rx_buffer
  | Call_send_bytes "byte list"
  | Call_read_bytes int
  | Call_get_unread_bytes
  | World_changes "'w \<Rightarrow> 'w"

fun step :: "('h, 'w) serial_lib \<Rightarrow> ('h, 'w) action \<Rightarrow> ('h, 'w) state \<Rightarrow> ('h, 'w) state" where
  "step lib Call_getAvailablePorts s = snd (getAvailablePorts s)"
| "step lib (Call_open_conn p) s = snd (open_conn lib p s)"
| "step lib Call_close_conn s = snd (close_conn lib s)"
| "step lib Call_clear_tx_buffer s = snd (clear_tx_buffer lib s)"
| "step lib Call_clear_rx_buffer s = snd (clear_rx_buffer lib s)"
| "step lib (Call_send_bytes b) s = snd (send_bytes lib b s)"
| "step lib (Call_read_bytes n) s = snd (read_bytes lib n s)"
| "step lib Call_get_unread_bytes s = snd (get_unread_bytes lib s)"
| "step lib (World_changes f) s = s\<lparr>world := f (world s)\<rparr>"

fun run :: "('h, 'w) serial_lib \<Rightarrow> ('h, 'w) action list \<Rightarrow> ('h, 'w) state \<Rightarrow> ('h, 'w) state" where
  "run lib [] s = s"
| "run lib (a # as) s = run lib as (step lib a s)"

subsection \<open>The environment: pyserial as documented\<close>

text \<open>
  A model of the library for the claims that speak of what the line does (a timeout, a
  port that does not exist, the number of buffered bytes). It follows pyserial's API
  documentation: \<^verbatim>\<open>Serial(port=...)\<close> opens the device at once and raises
  \<^verbatim>\<open>SerialException\<close> when it cannot; \<^verbatim>\<open>close\<close> on a closed port does nothing; every
  other method raises on a port that is not open; \<^verbatim>\<open>read(size)\<close> with a timeout
  returns the bytes that arrived, fewer than \<^verbatim>\<open>size\<close> when the timeout elapsed first.
  A \<^verbatim>\<open>Serial\<close> object is its index in the list of objects created so far.
\<close>

datatype dev_status = Available | Busy | NoPermission

record sim_port =
  sp_args :: serial_args
  sp_is_open :: bool

text \<open>
  \<open>rx_buffer\<close>: the bytes already in the input buffer. \<open>rx_incoming\<close>: the bytes
  that the instrument delivers, in this order, before the read timeout of the next
  \<^verbatim>\<open>read\<close> elapses. \<open>tx_wire\<close>: the bytes written to the line.
\<close>

record sim_world =
  devices :: "(string \<times> dev_status) list"
  ports :: "sim_port list"
  rx_buffer :: "byte list"
  rx_incoming :: "byte list"
  tx_wire :: "byte list"

definition port_open :: "sim_world \<Rightarrow> nat \<Rightarrow> bool" where
  "port_open w h = (h < length (ports w) \<and> sp_is_open (ports w ! h))"

definition sim_comports :: "sim_world \<Rightarrow> (exn + string list) \<times> sim_world" where
  "sim_comports w = (Inr (map fst (devices w)), w)"

definition sim_Serial :: "serial_args \<Rightarrow> sim_world \<Rightarrow> (exn + nat) \<times> sim_world" where
  "sim_Serial a w =
     (case map_of (devices w) (port a) of
        Some Available \<Rightarrow>
          (Inr (length (ports w)), w\<lparr>ports := ports w @ [\<lparr>sp_args = a, sp_is_open = True\<rparr>]\<rparr>)
      | Some Busy \<Rightarrow> (Inl SerialException, w)
      | Some NoPermission \<Rightarrow> (Inl SerialException, w)
      | None \<Rightarrow> (Inl SerialException, w))"

definition sim_close :: "nat \<Rightarrow> sim_world \<Rightarrow> (exn + unit) \<times> sim_world" where
  "sim_close h w =
     (if h < length (ports w)
      then (Inr (), w\<lparr>ports := (ports w)[h := (ports w ! h)\<lparr>sp_is_open := False\<rparr>]\<rparr>)
      else (Inl ValueError, w))"

definition sim_flushOutput :: "nat \<Rightarrow> sim_world \<Rightarrow> (exn + unit) \<times> sim_world" where
  "sim_flushOutput h w = (if port_open w h then (Inr (), w) else (Inl PortNotOpenError, w))"

definition sim_flushInput :: "nat \<Rightarrow> sim_world \<Rightarrow> (exn + unit) \<times> sim_world" where
  "sim_flushInput h w =
     (if port_open w h then (Inr (), w\<lparr>rx_buffer := []\<rparr>) else (Inl PortNotOpenError, w))"

definition sim_write :: "nat \<Rightarrow> byte list \<Rightarrow> sim_world \<Rightarrow> (exn + nat) \<times> sim_world" where
  "sim_write h b w =
     (if port_open w h then (Inr (length b), w\<lparr>tx_wire := tx_wire w @ b\<rparr>)
      else (Inl PortNotOpenError, w))"

definition sim_read :: "nat \<Rightarrow> int \<Rightarrow> sim_world \<Rightarrow> (exn + byte list) \<times> sim_world" where
  "sim_read h n w =
     (if port_open w h
      then (Inr (take (nat n) (rx_buffer w @ rx_incoming w)),
            w\<lparr>rx_buffer := drop (nat n) (rx_buffer w),
              rx_incoming := drop (nat n - length (rx_buffer w)) (rx_incoming w)\<rparr>)
      else (Inl PortNotOpenError, w))"

definition sim_inWaiting :: "nat \<Rightarrow> sim_world \<Rightarrow> (exn + nat) \<times> sim_world" where
  "sim_inWaiting h w =
     (if port_open w h then (Inr (length (rx_buffer w)), w) else (Inl PortNotOpenError, w))"

definition pyserial :: "(nat, sim_world) serial_lib" where
  "pyserial =
     \<lparr>lib_comports = sim_comports, lib_Serial = sim_Serial, lib_close = sim_close,
      lib_flushOutput = sim_flushOutput, lib_flushInput = sim_flushInput,
      lib_write = sim_write, lib_read = sim_read, lib_inWaiting = sim_inWaiting\<rparr>"

text \<open>
  The Connection of the specification: Open when the driver holds a \<^verbatim>\<open>Serial\<close>
  object whose port is open, Closed otherwise (never opened, or closed).
\<close>

definition connection_open :: "(nat, sim_world) state \<Rightarrow> bool" where
  "connection_open s = (case conn s of None \<Rightarrow> False | Some h \<Rightarrow> port_open (world s) h)"

text \<open>
  A bench for the examples: one instrument on \<open>COM3\<close>, a second device held by another
  program, two bytes buffered, and a single byte that arrives before the next read
  timeout. \<open>bench_driver\<close> is the driver that the constructor builds there,
  \<open>bench_connected\<close> the same after \<^verbatim>\<open>open_conn("COM3")\<close>, \<open>bench_closed\<close> after
  \<^verbatim>\<open>close_conn()\<close> then.
\<close>

definition bench_world :: sim_world where
  "bench_world =
     \<lparr>devices = [(''COM3'', Available), (''COM4'', Busy)], ports = [],
      rx_buffer = [0x10, 0x20], rx_incoming = [0xAA], tx_wire = []\<rparr>"

definition bench_driver :: "(nat, sim_world) state" where
  "bench_driver =
     snd (init pyserial
       \<lparr>comm_ports_list = [], conn = None, world = bench_world, calls = [], stdout = []\<rparr>)"

definition bench_connected :: "(nat, sim_world) state" where
  "bench_connected = snd (open_conn pyserial ''COM3'' bench_driver)"

definition bench_closed :: "(nat, sim_world) state" where
  "bench_closed = snd (close_conn pyserial bench_connected)"

text \<open>The same library with buffer flushes that always fail.\<close>

definition failing_flush :: "(nat, sim_world) serial_lib" where
  "failing_flush =
     pyserial\<lparr>lib_flushOutput := (\<lambda>h w. (Inl OSError, w)),
               lib_flushInput := (\<lambda>h w. (Inl OSError, w))\<rparr>"


section \<open>Properties\<close>

subsection \<open>Helper lemmas\<close>

lemmas py_defs = py_return_def py_bind_def try_except_def get_conn_def set_conn_def
  print_line_def invoke_def





text \<open>Each method, with its \<^verbatim>\<open>try\<close> and \<^verbatim>\<open>except\<close> evaluated.\<close>

lemmas sim_defs = pyserial_def sim_comports_def sim_Serial_def sim_close_def
  sim_flushOutput_def sim_flushInput_def sim_write_def sim_read_def sim_inWaiting_def

lemma port_open_args [simp]: "port (open_args p) = p"
  by (simp add: open_args_def)

lemma clear_tx_buffer_unfold:
  "clear_tx_buffer lib s =
     (case conn s of
        None \<Rightarrow> (Inr (), s\<lparr>stdout := stdout s @ [''UART ERROR: Clear TX serial buffer failed'']\<rparr>)
      | Some h \<Rightarrow>
          (case lib_flushOutput lib h (world s) of
             (Inl e, w') \<Rightarrow>
               (Inr (), s\<lparr>world := w', calls := calls s @ [FlushOutputCall h],
                          stdout := stdout s @ [''UART ERROR: Clear TX serial buffer failed'']\<rparr>)
           | (Inr u, w') \<Rightarrow>
               (Inr (), s\<lparr>world := w', calls := calls s @ [FlushOutputCall h]\<rparr>)))"
  by (auto simp: clear_tx_buffer_def py_defs split: option.splits sum.splits prod.splits)

lemma clear_rx_buffer_unfold:
  "clear_rx_buffer lib s =
     (case conn s of
        None \<Rightarrow> (Inr (), s\<lparr>stdout := stdout s @ [''UART ERROR: Clear RX serial buffer failed'']\<rparr>)
      | Some h \<Rightarrow>
          (case lib_flushInput lib h (world s) of
             (Inl e, w') \<Rightarrow>
               (Inr (), s\<lparr>world := w', calls := calls s @ [FlushInputCall h],
                          stdout := stdout s @ [''UART ERROR: Clear RX serial buffer failed'']\<rparr>)
           | (Inr u, w') \<Rightarrow>
               (Inr (), s\<lparr>world := w', calls := calls s @ [FlushInputCall h]\<rparr>)))"
  by (auto simp: clear_rx_buffer_def py_defs split: option.splits sum.splits prod.splits)

lemma close_conn_unfold:
  "close_conn lib s =
     (case conn s of
        None \<Rightarrow> (Inr (), s\<lparr>stdout := stdout s @ [''UART ERROR: Serial connection close failed'']\<rparr>)
      | Some h \<Rightarrow>
          (case lib_close lib h (world s) of
             (Inl e, w') \<Rightarrow>
               (Inr (), s\<lparr>world := w', calls := calls s @ [CloseCall h],
                          stdout := stdout s @ [''UART ERROR: Serial connection close failed'']\<rparr>)
           | (Inr u, w') \<Rightarrow>
               (Inr (), s\<lparr>world := w', calls := calls s @ [CloseCall h]\<rparr>)))"
  by (auto simp: close_conn_def py_defs split: option.splits sum.splits prod.splits)

lemma get_unread_bytes_unfold:
  "get_unread_bytes lib s =
     (case conn s of
        None \<Rightarrow> (Inr (- 1), s\<lparr>stdout := stdout s @ [''UART ERROR: Failed to get serial bytes in waiting'']\<rparr>)
      | Some h \<Rightarrow>
          (case lib_inWaiting lib h (world s) of
             (Inl e, w') \<Rightarrow>
               (Inr (- 1), s\<lparr>world := w', calls := calls s @ [InWaitingCall h],
                          stdout := stdout s @ [''UART ERROR: Failed to get serial bytes in waiting'']\<rparr>)
           | (Inr k, w') \<Rightarrow>
               (Inr (int k), s\<lparr>world := w', calls := calls s @ [InWaitingCall h]\<rparr>)))"
  by (auto simp: get_unread_bytes_def py_defs split: option.splits sum.splits prod.splits)

text \<open>\<^verbatim>\<open>send_bytes\<close> in terms of \<^verbatim>\<open>clear_tx_buffer\<close>.\<close>

lemma clear_tx_buffer_conn: "conn (snd (clear_tx_buffer lib s)) = conn s"
  by (auto simp: clear_tx_buffer_unfold split: option.splits sum.splits prod.splits)

lemma clear_tx_buffer_fst: "fst (clear_tx_buffer lib s) = Inr ()"
  by (auto simp: clear_tx_buffer_unfold split: option.splits sum.splits prod.splits)

lemma send_bytes_None:
  "conn s = None \<Longrightarrow>
   send_bytes lib b s =
     (Inr False, s\<lparr>stdout := stdout s @ [''UART ERROR: Clear TX serial buffer failed'']\<rparr>)"
  by (simp add: send_bytes_def clear_tx_buffer_unfold py_defs)

lemma send_bytes_Some:
  assumes "conn s = Some h"
  shows "send_bytes lib b s =
     (let s1 = snd (clear_tx_buffer lib s) in
      case lib_write lib h b (world s1) of
        (Inl e, w2) \<Rightarrow> (Inr False, s1\<lparr>world := w2, calls := calls s1 @ [WriteCall h b]\<rparr>)
      | (Inr k, w2) \<Rightarrow>
          (Inr True, snd (clear_tx_buffer lib (s1\<lparr>world := w2, calls := calls s1 @ [WriteCall h b]\<rparr>))))"
proof -
  obtain s1 where c: "clear_tx_buffer lib s = (Inr (), s1)"
    using clear_tx_buffer_fst [of lib s] by (cases "clear_tx_buffer lib s") auto
  then have h1: "conn s1 = Some h"
    using clear_tx_buffer_conn [of lib s] assms by simp
  obtain r w2 where w: "lib_write lib h b (world s1) = (r, w2)"
    by (cases "lib_write lib h b (world s1)") auto
  let ?s2 = "s1\<lparr>world := w2, calls := calls s1 @ [WriteCall h b]\<rparr>"
  show ?thesis
  proof (cases r)
    case (Inl e)
    with c h1 w show ?thesis
      by (simp add: send_bytes_def py_defs)
  next
    case (Inr k)
    obtain s3 where c2: "clear_tx_buffer lib ?s2 = (Inr (), s3)"
      using clear_tx_buffer_fst [of lib ?s2] by (cases "clear_tx_buffer lib ?s2") auto
    with Inr c h1 w show ?thesis
      by (simp add: send_bytes_def py_defs)
  qed
qed

lemma open_conn_unfold:
  "open_conn lib p s =
     (case lib_Serial lib (open_args p) (world s) of
        (Inl e, w') \<Rightarrow>
          (Inr False,
           s\<lparr>world := w', calls := calls s @ [SerialCall (open_args p)],
             stdout := stdout s @
               [''UART ERROR: Serial port '' @ [CHR 0x27] @ p @ [CHR 0x27] @ '' not open'']\<rparr>)
      | (Inr h, w') \<Rightarrow>
          (Inr True,
           s\<lparr>world := w', calls := calls s @ [SerialCall (open_args p)], conn := Some h\<rparr>))"
  by (auto simp: open_conn_def py_defs split: sum.splits prod.splits)

lemma read_bytes_unfold:
  "read_bytes lib n s =
     (case conn s of
        None \<Rightarrow> (Inr (False, []), s)
      | Some h \<Rightarrow>
          (case lib_read lib h n (world s) of
             (Inl e, w') \<Rightarrow>
               (Inr (False, []), s\<lparr>world := w', calls := calls s @ [ReadCall h n]\<rparr>)
           | (Inr bs, w') \<Rightarrow>
               (Inr (True, map uint bs), s\<lparr>world := w', calls := calls s @ [ReadCall h n]\<rparr>)))"
  by (auto simp: read_bytes_def py_defs split: option.splits sum.splits prod.splits)


text \<open>The bench states, evaluated.\<close>

lemma bench_driver_eq:
  "bench_driver =
     \<lparr>comm_ports_list = [''COM3'', ''COM4''], conn = None, world = bench_world,
      calls = [Comports], stdout = []\<rparr>"
  by (simp add: bench_driver_def bench_world_def init_def py_defs sim_defs)

lemma bench_connected_eq:
  "bench_connected =
     \<lparr>comm_ports_list = [''COM3'', ''COM4''], conn = Some 0,
      world = \<lparr>devices = [(''COM3'', Available), (''COM4'', Busy)],
               ports = [\<lparr>sp_args = open_args ''COM3'', sp_is_open = True\<rparr>],
               rx_buffer = [0x10, 0x20], rx_incoming = [0xAA], tx_wire = []\<rparr>,
      calls = [Comports, SerialCall (open_args ''COM3'')], stdout = []\<rparr>"
  by (simp add: bench_connected_def bench_driver_eq bench_world_def open_conn_unfold sim_defs)

lemma bench_closed_eq:
  "bench_closed =
     \<lparr>comm_ports_list = [''COM3'', ''COM4''], conn = Some 0,
      world = \<lparr>devices = [(''COM3'', Available), (''COM4'', Busy)],
               ports = [\<lparr>sp_args = open_args ''COM3'', sp_is_open = False\<rparr>],
               rx_buffer = [0x10, 0x20], rx_incoming = [0xAA], tx_wire = []\<rparr>,
      calls = [Comports, SerialCall (open_args ''COM3''), CloseCall 0], stdout = []\<rparr>"
  by (simp add: bench_closed_def bench_connected_eq close_conn_unfold sim_defs)

subsection \<open>Opening a port\<close>

text \<open>
  C3. \<^verbatim>\<open>open_conn(port)\<close> makes exactly one library call, the constructor
  \<^verbatim>\<open>serial.Serial\<close>, on the port it was given and with 115200 baud, no parity, one
  stop bit, eight data bits and a read timeout of 0.2 s. The caller chooses the port
  only: the other arguments are the same for every port and every state.
\<close>

theorem open_conn_fixed_link_parameters:
  "calls (snd (open_conn lib p s)) =
     calls s @ [SerialCall \<lparr>port = p, baudrate = 115200, parity = PARITY_NONE,
                           stopbits = STOPBITS_ONE, bytesize = EIGHTBITS, timeout = 2 / 10\<rparr>] \<and>
   world (snd (open_conn lib p s)) =
     snd (lib_Serial lib \<lparr>port = p, baudrate = 115200, parity = PARITY_NONE,
                           stopbits = STOPBITS_ONE, bytesize = EIGHTBITS, timeout = 2 / 10\<rparr>
            (world s)) \<and>
   data_bits EIGHTBITS = 8"
  by (cases "lib_Serial lib (open_args p) (world s)")
     (auto simp: open_conn_def open_args_def py_defs split: sum.splits prod.splits)



subsection \<open>Sending\<close>

lemma clear_tx_buffer_calls:
  "calls (snd (clear_tx_buffer lib s)) =
     (case conn s of None \<Rightarrow> calls s | Some h \<Rightarrow> calls s @ [FlushOutputCall h])"
  by (auto simp: clear_tx_buffer_unfold split: option.splits sum.splits prod.splits)

lemma clear_tx_buffer_world:
  "world (snd (clear_tx_buffer lib s)) =
     (case conn s of None \<Rightarrow> world s | Some h \<Rightarrow> snd (lib_flushOutput lib h (world s)))"
  by (auto simp: clear_tx_buffer_unfold split: option.splits sum.splits prod.splits)

lemma send_bytes_calls:
  assumes "conn s = Some h"
  shows "calls (snd (send_bytes lib b s)) =
     (case fst (lib_write lib h b (snd (lib_flushOutput lib h (world s)))) of
        Inl e \<Rightarrow> calls s @ [FlushOutputCall h, WriteCall h b]
      | Inr k \<Rightarrow> calls s @ [FlushOutputCall h, WriteCall h b, FlushOutputCall h])"
  using assms
  by (cases "lib_write lib h b (snd (lib_flushOutput lib h (world s)))")
     (auto simp: send_bytes_Some Let_def clear_tx_buffer_calls clear_tx_buffer_world
        clear_tx_buffer_conn split: sum.splits)

lemma send_bytes_result:
  assumes "conn s = Some h"
  shows "fst (send_bytes lib b s) =
     (case fst (lib_write lib h b (snd (lib_flushOutput lib h (world s)))) of
        Inl e \<Rightarrow> Inr False | Inr k \<Rightarrow> Inr True)"
  using assms
  by (cases "lib_write lib h b (snd (lib_flushOutput lib h (world s)))")
     (auto simp: send_bytes_Some Let_def clear_tx_buffer_world split: sum.splits)

lemma send_bytes_sim_closed:
  assumes "\<not> connection_open t"
  shows "fst (send_bytes pyserial b t) = Inr False"
    and "tx_wire (world (snd (send_bytes pyserial b t))) = tx_wire (world t)"
  using assms
  by (auto simp: connection_open_def send_bytes_None send_bytes_Some Let_def
      clear_tx_buffer_unfold sim_defs split: option.splits)

lemma send_bytes_sim_open:
  assumes "connection_open t"
  shows "fst (send_bytes pyserial b t) = Inr True"
    and "tx_wire (world (snd (send_bytes pyserial b t))) = tx_wire (world t) @ b"
  using assms
  by (auto simp: connection_open_def send_bytes_Some Let_def port_open_def
      clear_tx_buffer_unfold sim_defs split: option.splits)

text \<open>
  C5. \<^verbatim>\<open>send_bytes\<close> calls the library in the order flush the output buffer, write
  the given bytes, flush the output buffer again, and returns \<open>True\<close> when the write
  returns; when the write raises it returns \<open>False\<close> after the first two calls. It
  returns \<open>False\<close>, and never raises, when \<^verbatim>\<open>self.conn\<close> was never assigned, and (with
  pyserial as documented) whenever the Connection is not Open; on an Open Connection it
  returns \<open>True\<close> and the bytes are on the line.
\<close>

theorem send_bytes_sequence:
  "(conn s = None \<longrightarrow>
      fst (send_bytes lib b s) = Inr False \<and> calls (snd (send_bytes lib b s)) = calls s) \<and>
   (conn s = Some h \<longrightarrow>
      calls (snd (send_bytes lib b s)) =
        (case fst (lib_write lib h b (snd (lib_flushOutput lib h (world s)))) of
           Inl e \<Rightarrow> calls s @ [FlushOutputCall h, WriteCall h b]
         | Inr k \<Rightarrow> calls s @ [FlushOutputCall h, WriteCall h b, FlushOutputCall h]) \<and>
      fst (send_bytes lib b s) =
        (case fst (lib_write lib h b (snd (lib_flushOutput lib h (world s)))) of
           Inl e \<Rightarrow> Inr False
         | Inr k \<Rightarrow> Inr True)) \<and>
   (\<not> connection_open t \<longrightarrow>
      fst (send_bytes pyserial b t) = Inr False \<and>
      tx_wire (world (snd (send_bytes pyserial b t))) = tx_wire (world t)) \<and>
   (connection_open t \<longrightarrow>
      fst (send_bytes pyserial b t) = Inr True \<and>
      tx_wire (world (snd (send_bytes pyserial b t))) = tx_wire (world t) @ b)"
  by (simp add: send_bytes_None send_bytes_calls send_bytes_result send_bytes_sim_closed
      send_bytes_sim_open)

theorem send_bytes_sequence_witness:
  "conn bench_driver = None \<and>
   fst (send_bytes pyserial [1, 2] bench_driver) = Inr False \<and>
   calls (snd (send_bytes pyserial [1, 2] bench_driver)) = [Comports] \<and>
   conn bench_connected = Some 0 \<and>
   connection_open bench_connected \<and>
   fst (send_bytes pyserial [1, 2] bench_connected) = Inr True \<and>
   calls (snd (send_bytes pyserial [1, 2] bench_connected)) =
     [Comports, SerialCall (open_args ''COM3''),
      FlushOutputCall 0, WriteCall 0 [1, 2], FlushOutputCall 0] \<and>
   tx_wire (world (snd (send_bytes pyserial [1, 2] bench_connected))) = [1, 2] \<and>
   conn bench_closed = Some 0 \<and>
   \<not> connection_open bench_closed \<and>
   fst (send_bytes pyserial [1, 2] bench_closed) = Inr False \<and>
   calls (snd (send_bytes pyserial [1, 2] bench_closed)) =
     [Comports, SerialCall (open_args ''COM3''), CloseCall 0,
      FlushOutputCall 0, WriteCall 0 [1, 2]]"
proof -
  have a: "conn bench_driver = None" "conn bench_connected = Some 0" "conn bench_closed = Some 0"
    by (simp_all add: bench_driver_eq bench_connected_eq bench_closed_eq)
  have b: "connection_open bench_connected" "\<not> connection_open bench_closed"
    by (simp_all add: bench_connected_eq bench_closed_eq connection_open_def port_open_def)
  have c: "fst (lib_write pyserial 0 [1, 2] (snd (lib_flushOutput pyserial 0 (world bench_connected))))
             = Inr 2"
    by (simp add: bench_connected_eq sim_defs port_open_def)
  have d: "fst (lib_write pyserial 0 [1, 2] (snd (lib_flushOutput pyserial 0 (world bench_closed))))
             = Inl PortNotOpenError"
    by (simp add: bench_closed_eq sim_defs port_open_def)
  have e: "calls bench_driver = [Comports]"
    "calls bench_connected = [Comports, SerialCall (open_args ''COM3'')]"
    "calls bench_closed = [Comports, SerialCall (open_args ''COM3''), CloseCall 0]"
    "tx_wire (world bench_connected) = []"
    by (simp_all add: bench_driver_eq bench_connected_eq bench_closed_eq)
  from a b c d e
    send_bytes_sequence [of bench_driver pyserial "[1, 2]" 0 bench_connected]
    send_bytes_sequence [of bench_connected pyserial "[1, 2]" 0 bench_closed]
    send_bytes_sequence [of bench_closed pyserial "[1, 2]" 0 bench_closed]
  show ?thesis by simp
qed

subsection \<open>Closing\<close>

lemma close_conn_fst: "fst (close_conn lib s) = Inr ()"
  by (auto simp: close_conn_unfold split: option.splits sum.splits prod.splits)

lemma close_conn_conn: "conn (snd (close_conn lib s)) = conn s"
  by (auto simp: close_conn_unfold split: option.splits sum.splits prod.splits)

lemma close_conn_stdout:
  "stdout (snd (close_conn lib s)) =
     (case conn s of
        None \<Rightarrow> stdout s @ [''UART ERROR: Serial connection close failed'']
      | Some h \<Rightarrow>
          (case fst (lib_close lib h (world s)) of
             Inl e \<Rightarrow> stdout s @ [''UART ERROR: Serial connection close failed'']
           | Inr u \<Rightarrow> stdout s))"
  by (auto simp: close_conn_unfold split: option.splits sum.splits prod.splits)

lemma close_conn_sim_world:
  "world (snd (close_conn pyserial t)) =
     (case conn t of None \<Rightarrow> world t | Some h \<Rightarrow> snd (sim_close h (world t)))"
  by (auto simp: close_conn_unfold pyserial_def split: option.splits sum.splits prod.splits)

lemma sim_close_twice: "snd (sim_close h (snd (sim_close h w))) = snd (sim_close h w)"
  by (simp add: sim_close_def)

lemma sim_close_not_open: "\<not> port_open (snd (sim_close h w)) h"
  by (simp add: sim_close_def port_open_def)

text \<open>
  C6. \<^verbatim>\<open>close_conn\<close> never raises: it returns in every state, also when no
  connection was ever opened and when the underlying \<^verbatim>\<open>close\<close> raises, and in these
  two cases it prints \<^verbatim>\<open>UART ERROR: Serial connection close failed\<close>; it never touches
  \<^verbatim>\<open>self.conn\<close>. It is idempotent: with pyserial as documented, after one call the
  Connection is not Open, and a second call returns as well and leaves the driver's
  connection and the world exactly as the first call left them.
\<close>

theorem close_conn_idempotent_never_raises:
  "fst (close_conn lib s) = Inr () \<and>
   conn (snd (close_conn lib s)) = conn s \<and>
   stdout (snd (close_conn lib s)) =
     (case conn s of
        None \<Rightarrow> stdout s @ [''UART ERROR: Serial connection close failed'']
      | Some h \<Rightarrow>
          (case fst (lib_close lib h (world s)) of
             Inl e \<Rightarrow> stdout s @ [''UART ERROR: Serial connection close failed'']
           | Inr u \<Rightarrow> stdout s)) \<and>
   \<not> connection_open (snd (close_conn pyserial t)) \<and>
   fst (close_conn pyserial (snd (close_conn pyserial t))) = Inr () \<and>
   conn (snd (close_conn pyserial (snd (close_conn pyserial t)))) =
     conn (snd (close_conn pyserial t)) \<and>
   world (snd (close_conn pyserial (snd (close_conn pyserial t)))) =
     world (snd (close_conn pyserial t))"
proof -
  have "\<not> connection_open (snd (close_conn pyserial t))"
    by (simp add: connection_open_def close_conn_conn close_conn_sim_world sim_close_not_open
        split: option.splits)
  moreover have "world (snd (close_conn pyserial (snd (close_conn pyserial t)))) =
     world (snd (close_conn pyserial t))"
    by (simp add: close_conn_sim_world close_conn_conn sim_close_twice split: option.splits)
  ultimately show ?thesis
    by (simp add: close_conn_fst close_conn_conn close_conn_stdout)
qed

subsection \<open>Flushing the buffers\<close>

lemma clear_rx_buffer_fst: "fst (clear_rx_buffer lib s) = Inr ()"
  by (auto simp: clear_rx_buffer_unfold split: option.splits sum.splits prod.splits)

lemma clear_tx_buffer_logged:
  assumes "conn s = Some h" and "fst (lib_flushOutput lib h (world s)) = Inl e"
  shows "stdout (snd (clear_tx_buffer lib s)) =
           stdout s @ [''UART ERROR: Clear TX serial buffer failed'']"
  using assms
  by (cases "lib_flushOutput lib h (world s)") (simp add: clear_tx_buffer_unfold)

lemma clear_rx_buffer_logged:
  assumes "conn s = Some h" and "fst (lib_flushInput lib h (world s)) = Inl e"
  shows "stdout (snd (clear_rx_buffer lib s)) =
           stdout s @ [''UART ERROR: Clear RX serial buffer failed'']"
  using assms
  by (cases "lib_flushInput lib h (world s)") (simp add: clear_rx_buffer_unfold)

lemma send_bytes_write_attempted:
  assumes "conn s = Some h"
  shows "take 2 (drop (length (calls s)) (calls (snd (send_bytes lib b s)))) =
           [FlushOutputCall h, WriteCall h b]"
  using assms by (simp add: send_bytes_calls split: sum.splits)

text \<open>
  C7. \<^verbatim>\<open>clear_tx_buffer\<close> and \<^verbatim>\<open>clear_rx_buffer\<close> never raise. When the underlying
  flush raises, the error is printed, and inside \<^verbatim>\<open>send_bytes\<close> the write is still
  attempted right after the failed flush: the result of \<^verbatim>\<open>send_bytes\<close> is decided by
  the write alone.
\<close>

theorem flush_failure_logged_not_raised:
  "fst (clear_tx_buffer lib s) = Inr () \<and>
   fst (clear_rx_buffer lib s) = Inr () \<and>
   (conn s = Some h \<and> fst (lib_flushOutput lib h (world s)) = Inl e \<longrightarrow>
      stdout (snd (clear_tx_buffer lib s)) =
        stdout s @ [''UART ERROR: Clear TX serial buffer failed''] \<and>
      take 2 (drop (length (calls s)) (calls (snd (send_bytes lib b s)))) =
        [FlushOutputCall h, WriteCall h b] \<and>
      fst (send_bytes lib b s) =
        (case fst (lib_write lib h b (snd (lib_flushOutput lib h (world s)))) of
           Inl e' \<Rightarrow> Inr False
         | Inr k \<Rightarrow> Inr True)) \<and>
   (conn s = Some h \<and> fst (lib_flushInput lib h (world s)) = Inl e \<longrightarrow>
      stdout (snd (clear_rx_buffer lib s)) =
        stdout s @ [''UART ERROR: Clear RX serial buffer failed''])"
  by (simp add: clear_tx_buffer_fst clear_rx_buffer_fst clear_tx_buffer_logged
      clear_rx_buffer_logged send_bytes_write_attempted send_bytes_result)

theorem flush_failure_logged_not_raised_witness:
  "conn bench_connected = Some 0 \<and>
   fst (lib_flushOutput failing_flush 0 (world bench_connected)) = Inl OSError \<and>
   fst (lib_flushInput failing_flush 0 (world bench_connected)) = Inl OSError \<and>
   fst (clear_tx_buffer failing_flush bench_connected) = Inr () \<and>
   stdout (snd (clear_tx_buffer failing_flush bench_connected)) =
     [''UART ERROR: Clear TX serial buffer failed''] \<and>
   stdout (snd (clear_rx_buffer failing_flush bench_connected)) =
     [''UART ERROR: Clear RX serial buffer failed''] \<and>
   take 2 (drop 2 (calls (snd (send_bytes failing_flush [1, 2] bench_connected)))) =
     [FlushOutputCall 0, WriteCall 0 [1, 2]] \<and>
   fst (send_bytes failing_flush [1, 2] bench_connected) = Inr True"
proof -
  have a: "conn bench_connected = Some 0" "stdout bench_connected = []"
    "length (calls bench_connected) = 2"
    by (simp_all add: bench_connected_eq)
  have b: "fst (lib_flushOutput failing_flush 0 (world bench_connected)) = Inl OSError"
    "fst (lib_flushInput failing_flush 0 (world bench_connected)) = Inl OSError"
    by (simp_all add: failing_flush_def)
  have c: "fst (lib_write failing_flush 0 [1, 2]
             (snd (lib_flushOutput failing_flush 0 (world bench_connected)))) = Inr 2"
    by (simp add: failing_flush_def bench_connected_eq sim_defs port_open_def)
  from a b c
    flush_failure_logged_not_raised [of failing_flush bench_connected 0 OSError "[1, 2]"]
  show ?thesis by simp
qed

subsection \<open>Receiving\<close>

text \<open>
  The claim C1 says that a read which times out with fewer bytes than requested
  returns a failure status. It does not: \<^verbatim>\<open>rx_stat\<close> is set to \<open>True\<close> whenever
  \<^verbatim>\<open>read\<close> returns, whatever the number of bytes. On the bench, three bytes arrive
  before the timeout, four are requested, and the status is \<open>True\<close>; a second read,
  for which nothing arrives at all, returns \<open>True\<close> with no bytes.
\<close>

theorem read_bytes_short_read_counterexample:
  "connection_open bench_connected \<and>
   length (rx_buffer (world bench_connected) @ rx_incoming (world bench_connected)) < 4 \<and>
   fst (read_bytes pyserial 4 bench_connected) = Inr (True, [16, 32, 170]) \<and>
   fst (read_bytes pyserial 4 (snd (read_bytes pyserial 4 bench_connected))) = Inr (True, [])"
  by (simp add: bench_connected_eq read_bytes_unfold connection_open_def port_open_def sim_defs)

text \<open>
  C1, amended. \<^verbatim>\<open>read_bytes(n)\<close> makes one underlying \<^verbatim>\<open>read(n)\<close> (none when
  \<^verbatim>\<open>self.conn\<close> was never assigned) and never raises. It returns the status \<open>False\<close>,
  with an empty list, exactly when reading \<^verbatim>\<open>self.conn\<close> or the underlying read
  raises. Whenever the underlying read returns it returns the status \<open>True\<close> with the
  bytes read: on an Open Connection these are the first \<open>n\<close> bytes of what is buffered
  or arrives before the read timeout, so a read that timed out with fewer than \<open>n\<close>
  bytes, or none, is reported as a success with the partial bytes.
\<close>

theorem read_bytes_status:
  "fst (read_bytes lib n s) =
     (case conn s of
        None \<Rightarrow> Inr (False, [])
      | Some h \<Rightarrow>
          (case fst (lib_read lib h n (world s)) of
             Inl e \<Rightarrow> Inr (False, [])
           | Inr bs \<Rightarrow> Inr (True, map uint bs))) \<and>
   calls (snd (read_bytes lib n s)) =
     (case conn s of None \<Rightarrow> calls s | Some h \<Rightarrow> calls s @ [ReadCall h n]) \<and>
   (connection_open t \<longrightarrow>
      fst (read_bytes pyserial n t) =
        Inr (True, map uint (take (nat n) (rx_buffer (world t) @ rx_incoming (world t)))))"
  by (auto simp: read_bytes_unfold connection_open_def sim_defs
      split: option.splits sum.splits prod.splits)

theorem read_bytes_status_witness:
  "connection_open bench_connected \<and>
   fst (read_bytes pyserial 4 bench_connected) = Inr (True, [16, 32, 170]) \<and>
   fst (read_bytes pyserial 4 bench_driver) = Inr (False, [])"
  using read_bytes_status [of pyserial 4 bench_driver bench_connected]
  by (simp add: bench_connected_eq bench_driver_eq connection_open_def port_open_def)

text \<open>
  C8. \<^verbatim>\<open>get_unread_bytes\<close> returns the integer \<open>-1\<close>, and does not raise, when
  \<^verbatim>\<open>self.conn\<close> was never assigned or the underlying query raises, and otherwise the
  number the query returns. With pyserial as documented: whenever the Connection is
  not Open it returns \<open>-1\<close>, and on an Open Connection it returns the number of bytes
  buffered for reading and consumes none of them.
\<close>

theorem get_unread_bytes_sentinel:
  "fst (get_unread_bytes lib s) =
     (case conn s of
        None \<Rightarrow> Inr (- 1)
      | Some h \<Rightarrow>
          (case fst (lib_inWaiting lib h (world s)) of
             Inl e \<Rightarrow> Inr (- 1)
           | Inr k \<Rightarrow> Inr (int k))) \<and>
   (\<not> connection_open t \<longrightarrow> fst (get_unread_bytes pyserial t) = Inr (- 1)) \<and>
   (connection_open t \<longrightarrow>
      fst (get_unread_bytes pyserial t) = Inr (int (length (rx_buffer (world t)))) \<and>
      world (snd (get_unread_bytes pyserial t)) = world t)"
  by (auto simp: get_unread_bytes_unfold connection_open_def sim_defs
      split: option.splits sum.splits prod.splits)

theorem get_unread_bytes_sentinel_witness:
  "\<not> connection_open bench_driver \<and>
   fst (get_unread_bytes pyserial bench_driver) = Inr (- 1) \<and>
   \<not> connection_open bench_closed \<and>
   fst (get_unread_bytes pyserial bench_closed) = Inr (- 1) \<and>
   connection_open bench_connected \<and>
   fst (get_unread_bytes pyserial bench_connected) = Inr 2"
proof -
  have a: "\<not> connection_open bench_driver" "\<not> connection_open bench_closed"
    "connection_open bench_connected"
    by (simp_all add: bench_driver_eq bench_closed_eq bench_connected_eq connection_open_def
        port_open_def)
  have b: "length (rx_buffer (world bench_connected)) = 2"
    by (simp add: bench_connected_eq)
  from a b
    get_unread_bytes_sentinel [of pyserial bench_driver bench_driver]
    get_unread_bytes_sentinel [of pyserial bench_driver bench_closed]
    get_unread_bytes_sentinel [of pyserial bench_driver bench_connected]
  show ?thesis by simp
qed

subsection \<open>The list of ports\<close>

lemma append_devices_eq: "append_devices ps acc = acc @ ps"
  by (induction ps arbitrary: acc) simp_all

lemma init_ports:
  assumes "lib_comports lib (world s) = (Inr ds, w')"
  shows "init lib s = (Inr (), s\<lparr>world := w', calls := calls s @ [Comports], comm_ports_list := ds\<rparr>)"
  using assms by (simp add: init_def py_defs append_devices_eq)

lemma send_bytes_ports: "comm_ports_list (snd (send_bytes lib b s)) = comm_ports_list s"
proof (cases "conn s")
  case None
  then show ?thesis by (simp add: send_bytes_None)
next
  case (Some h)
  then show ?thesis
    by (auto simp: send_bytes_Some Let_def clear_tx_buffer_unfold
        split: option.splits sum.splits prod.splits)
qed

lemma step_ports: "comm_ports_list (step lib a s) = comm_ports_list s"
proof (cases a)
  case (Call_send_bytes b)
  then show ?thesis by (simp add: send_bytes_ports)
qed (auto simp: getAvailablePorts_def open_conn_unfold close_conn_unfold
      clear_tx_buffer_unfold clear_rx_buffer_unfold read_bytes_unfold get_unread_bytes_unfold
      split: option.splits sum.splits prod.splits)

lemma run_ports: "comm_ports_list (run lib as s) = comm_ports_list s"
  by (induction as arbitrary: s) (simp_all add: step_ports)

text \<open>
  C10. \<^verbatim>\<open>getAvailablePorts\<close> returns \<^verbatim>\<open>self.comm_ports_list\<close> and changes nothing: no
  library call (no new enumeration), the connection and the world as they were. The
  list is the one that \<^verbatim>\<open>comports()\<close> gave in the constructor, and no method of the
  driver assigns it again, so after any sequence of method calls and of changes of the
  world outside (ports appearing or disappearing) a call returns the same list as
  before.
\<close>

theorem getAvailablePorts_snapshot:
  "getAvailablePorts s = (Inr (comm_ports_list s), s) \<and>
   fst (getAvailablePorts (run lib as s)) = fst (getAvailablePorts s) \<and>
   (lib_comports lib (world s0) = (Inr ds, w') \<longrightarrow>
      fst (getAvailablePorts (snd (init lib s0))) = Inr ds \<and>
      fst (getAvailablePorts (run lib as (snd (init lib s0)))) = Inr ds)"
  by (simp add: getAvailablePorts_def run_ports init_ports)

theorem getAvailablePorts_snapshot_witness:
  "lib_comports pyserial bench_world = (Inr [''COM3'', ''COM4''], bench_world) \<and>
   fst (getAvailablePorts bench_driver) = Inr [''COM3'', ''COM4''] \<and>
   devices (world (run pyserial
      [Call_open_conn ''COM3'', World_changes (\<lambda>w. w\<lparr>devices := [(''COM7'', Available)]\<rparr>),
       Call_getAvailablePorts, Call_close_conn] bench_driver)) = [(''COM7'', Available)] \<and>
   fst (getAvailablePorts (run pyserial
      [Call_open_conn ''COM3'', World_changes (\<lambda>w. w\<lparr>devices := [(''COM7'', Available)]\<rparr>),
       Call_getAvailablePorts, Call_close_conn] bench_driver)) = Inr [''COM3'', ''COM4'']"
proof -
  let ?s0 = "\<lparr>comm_ports_list = [], conn = None, world = bench_world, calls = [],
               stdout = []\<rparr> :: (nat, sim_world) state"
  let ?as = "[Call_open_conn ''COM3'',
              World_changes (\<lambda>w. w\<lparr>devices := [(''COM7'', Available)]\<rparr>),
              Call_getAvailablePorts, Call_close_conn] :: (nat, sim_world) action list"
  have a: "lib_comports pyserial bench_world = (Inr [''COM3'', ''COM4''], bench_world)"
    by (simp add: sim_defs bench_world_def)
  then have a': "lib_comports pyserial (world ?s0) = (Inr [''COM3'', ''COM4''], bench_world)"
    by simp
  have b: "devices (world (run pyserial ?as bench_driver)) = [(''COM7'', Available)]"
    by (simp add: bench_driver_eq bench_world_def open_conn_unfold close_conn_unfold
        getAvailablePorts_def sim_defs)
  have c: "snd (init pyserial ?s0) = bench_driver"
    by (simp add: bench_driver_def)
  have "fst (getAvailablePorts bench_driver) = Inr [''COM3'', ''COM4''] \<and>
        fst (getAvailablePorts (run pyserial ?as bench_driver)) = Inr [''COM3'', ''COM4'']"
    using a' getAvailablePorts_snapshot
      [of bench_driver pyserial ?as ?s0 "[''COM3'', ''COM4'']" bench_world]
    unfolding c by blast
  with a b show ?thesis by blast
qed

subsection \<open>What the operations return\<close>



end
